theory Spec2Isabelle
  imports Complex_Main
begin

section \<open>JavaScript values used by the emotion detection service\<close>

text \<open>
  A JavaScript number is an IEEE double. The service only compares, clamps and tests
  numbers for truthiness, so a number is modelled as a real with the three special
  values written out. Finite doubles are read as the reals they denote.
\<close>

datatype jsnum = NaN | NegInf | Fin real | PosInf

text \<open>
  The values a property read or an array read of the service can produce: \<open>undefined\<close>,
  a string, or a member that a plain object inherits from \<open>Object.prototype\<close>
  (a function or an object; the name of the member is kept).
\<close>

datatype jsval = Undefined | Str string | Inherited string

text \<open>Truthiness, as the operator \<open>||\<close> reads it.\<close>

fun truthy :: "jsval \<Rightarrow> bool" where
  "truthy Undefined = False"
| "truthy (Str s) = (s \<noteq> [])"
| "truthy (Inherited k) = True"

definition js_or :: "jsval \<Rightarrow> jsval \<Rightarrow> jsval" where
  "js_or a b = (if truthy a then a else b)"

section \<open>Data model of \<open>services/emotionDetection.ts\<close>\<close>

text \<open>
  \<open>interface EmotionPrediction { emotion: string; confidence: number; timestamp: number }\<close>.
  At run time the field \<open>emotion\<close> holds whatever the table or array read returned.
\<close>

record EmotionPrediction =
  emotion :: jsval
  confidence :: jsnum
  timestamp :: int

text \<open>The argument \<open>imageElement: HTMLVideoElement | HTMLImageElement | HTMLCanvasElement\<close>,
  with the intrinsic dimensions the service reads (\<open>videoWidth\<close>/\<open>videoHeight\<close> of a video,
  \<open>width\<close>/\<open>height\<close> otherwise; all of them unsigned).\<close>

datatype source =
    HTMLVideoElement nat nat
  | HTMLImageElement nat nat
  | HTMLCanvasElement nat nat

text \<open>What one call reads from the clock and the random generator:
  \<open>Date.now()\<close> (integer milliseconds) and \<open>Math.random()\<close>.\<close>

record clock =
  Date_now :: int
  Math_random :: real

section \<open>The fallback classifier\<close>

definition emotions :: "string list" where
  "emotions = [''happy'', ''neutral'', ''surprised'', ''sad'', ''angry'', ''fear'', ''disgust'']"

text \<open>The remainder operator \<open>%\<close> on finite numbers with a non-zero divisor: the result
  takes the sign of the dividend (truncated division).\<close>

definition js_trunc :: "real \<Rightarrow> int" where
  "js_trunc x = (if 0 \<le> x then \<lfloor>x\<rfloor> else \<lceil>x\<rceil>)"

definition js_rem :: "real \<Rightarrow> real \<Rightarrow> real" where
  "js_rem x y = x - y * of_int (js_trunc (x / y))"

text \<open>An array read \<open>xs[i]\<close> with an integer index: \<open>undefined\<close> out of range.\<close>

definition array_get :: "string list \<Rightarrow> int \<Rightarrow> jsval" where
  "array_get xs i = (if 0 \<le> i \<and> i < int (length xs) then Str (xs ! nat i) else Undefined)"

text \<open>\<open>const emotionIndex = Math.floor((currentTime / 3000) % emotions.length)\<close>\<close>

definition emotionIndex :: "int \<Rightarrow> int" where
  "emotionIndex currentTime = \<lfloor>js_rem (of_int currentTime / 3000) (of_nat (length emotions))\<rfloor>"

text \<open>\<open>private fallbackEmotionDetection(imageElement)\<close>: the argument is never read.\<close>

definition fallbackEmotionDetection :: "'a clock_scheme \<Rightarrow> source \<Rightarrow> EmotionPrediction" where
  "fallbackEmotionDetection c imageElement =
     (let currentTime = Date_now c;
          selectedEmotion = array_get emotions (emotionIndex currentTime);
          conf = 0.4 + Math_random c * 0.3
      in \<lparr>emotion = selectedEmotion, confidence = Fin conf, timestamp = currentTime\<rparr>)"

section \<open>The primary classifier\<close>

subsection \<open>Raw classifier output\<close>

text \<open>
  The classifier handle is typed \<open>any\<close>; what it returns is read dynamically. An
  element of the result array is either not an object (\<open>null\<close>, \<open>undefined\<close>: reading
  \<open>.label\<close> throws) or carries a \<open>label\<close> (\<open>None\<close>: absent or not a string, so that
  \<open>.toLowerCase()\<close> throws) and a \<open>score\<close> (\<open>None\<close>: absent).
\<close>

datatype raw_item = NullItem | Item "string option" "jsnum option"

datatype raw_results = NotArray | Array "raw_item list"

datatype 'a outcome = Throws | Returns 'a

type_synonym classifier_fn = "string \<Rightarrow> raw_results outcome"

subsection \<open>Label table\<close>

text \<open>The own properties of the object literal \<open>emotionMap\<close>.\<close>

definition emotionMap :: "(string \<times> string) list" where
  "emotionMap =
    [(''angry'', ''angry''),
     (''disgusted'', ''disgust''),
     (''fearful'', ''fear''),
     (''happy'', ''happy''),
     (''neutral'', ''neutral''),
     (''sad'', ''sad''),
     (''surprised'', ''surprised''),
     (''contempt'', ''disgust''),
     (''disgust'', ''disgust''),
     (''fear'', ''fear''),
     (''joy'', ''happy''),
     (''sadness'', ''sad''),
     (''anger'', ''angry'')]"

text \<open>
  \<open>emotionMap\<close> is a plain object, so a read \<open>emotionMap[k]\<close> that finds no own property
  goes on to \<open>Object.prototype\<close>. These are the members of \<open>Object.prototype\<close>
  (ECMAScript, with Annex B); each of them is a function or an object.
\<close>

definition Object_prototype :: "string list" where
  "Object_prototype =
    [''constructor'', ''hasOwnProperty'', ''isPrototypeOf'', ''propertyIsEnumerable'',
     ''toLocaleString'', ''toString'', ''valueOf'', ''__proto__'',
     ''__defineGetter__'', ''__defineSetter__'', ''__lookupGetter__'', ''__lookupSetter__'']"

definition emotionMap_get :: "string \<Rightarrow> jsval" where
  "emotionMap_get k =
     (case map_of emotionMap k of
        Some v \<Rightarrow> Str v
      | None \<Rightarrow> if k \<in> set Object_prototype then Inherited k else Undefined)"

text \<open>
  \<open>String.prototype.toLowerCase\<close> on the ASCII letters. A label is modelled as a string
  of 8-bit characters, and the characters outside \<open>A\<close>..\<open>Z\<close> are left as they are: no key
  of the table and no lower-case member of \<open>Object.prototype\<close> contains a letter that a
  non-ASCII character lowers to.
\<close>

definition lower_char :: "char \<Rightarrow> char" where
  "lower_char c =
     (if 65 \<le> (of_char c :: nat) \<and> (of_char c :: nat) \<le> 90
      then char_of ((of_char c :: nat) + 32) else c)"

definition toLowerCase :: "string \<Rightarrow> string" where
  "toLowerCase s = map lower_char s"

text \<open>\<open>const mappedEmotion = emotionMap[topResult.label.toLowerCase()] || 'neutral'\<close>\<close>

definition mappedEmotion :: "string \<Rightarrow> jsval" where
  "mappedEmotion label = js_or (emotionMap_get (toLowerCase label)) (Str ''neutral'')"

subsection \<open>Confidence\<close>

text \<open>\<open>score || d\<close>: an absent score, \<open>NaN\<close> and zero are falsy.\<close>

fun score_or :: "jsnum option \<Rightarrow> jsnum \<Rightarrow> jsnum" where
  "score_or None d = d"
| "score_or (Some NaN) d = d"
| "score_or (Some (Fin x)) d = (if x = 0 then d else Fin x)"
| "score_or (Some NegInf) d = NegInf"
| "score_or (Some PosInf) d = PosInf"

fun Math_min :: "jsnum \<Rightarrow> jsnum \<Rightarrow> jsnum" where
  "Math_min NaN b = NaN"
| "Math_min a NaN = NaN"
| "Math_min NegInf b = NegInf"
| "Math_min a NegInf = NegInf"
| "Math_min PosInf b = b"
| "Math_min a PosInf = a"
| "Math_min (Fin x) (Fin y) = Fin (min x y)"

fun Math_max :: "jsnum \<Rightarrow> jsnum \<Rightarrow> jsnum" where
  "Math_max NaN b = NaN"
| "Math_max a NaN = NaN"
| "Math_max PosInf b = PosInf"
| "Math_max a PosInf = PosInf"
| "Math_max NegInf b = b"
| "Math_max a NegInf = a"
| "Math_max (Fin x) (Fin y) = Fin (max x y)"

text \<open>\<open>const confidence = Math.max(0, Math.min(1, topResult.score || 0.5))\<close>\<close>

definition clampConfidence :: "jsnum option \<Rightarrow> jsnum" where
  "clampConfidence score = Math_max (Fin 0) (Math_min (Fin 1) (score_or score (Fin 0.5)))"

subsection \<open>Frame extraction\<close>

text \<open>\<open>n || d\<close> on an unsigned dimension.\<close>

definition dim_or :: "nat \<Rightarrow> nat \<Rightarrow> nat" where
  "dim_or n d = (if n = 0 then d else n)"

text \<open>
  \<open>const width = imageElement instanceof HTMLVideoElement ?
     Math.max(imageElement.videoWidth || 640, 224) : Math.max(imageElement.width || 640, 224)\<close>,
  and the same for \<open>height\<close> with 480.
\<close>

fun canvas_width :: "source \<Rightarrow> nat" where
  "canvas_width (HTMLVideoElement videoWidth videoHeight) = max (dim_or videoWidth 640) 224"
| "canvas_width (HTMLImageElement w h) = max (dim_or w 640) 224"
| "canvas_width (HTMLCanvasElement w h) = max (dim_or w 640) 224"

fun canvas_height :: "source \<Rightarrow> nat" where
  "canvas_height (HTMLVideoElement videoWidth videoHeight) = max (dim_or videoHeight 480) 224"
| "canvas_height (HTMLImageElement w h) = max (dim_or h 480) 224"
| "canvas_height (HTMLCanvasElement w h) = max (dim_or h 480) 224"

section \<open>The service \<open>EmotionDetectionService\<close>\<close>

text \<open>
  The private fields of the class. \<open>classifier\<close> is \<open>null\<close> until a model has loaded;
  a loaded classifier is the function that a call \<open>this.classifier(imageData)\<close> runs.
\<close>

record service =
  classifier :: "classifier_fn option"
  isInitialized :: bool
  isInitializing :: bool

text \<open>\<open>new EmotionDetectionService()\<close>\<close>

definition emotionDetectionService :: service where
  "emotionDetectionService = \<lparr>classifier = None, isInitialized = False, isInitializing = False\<rparr>"

datatype device = cpu | webgpu

type_synonym modelOption = "string \<times> device"

definition modelOptions :: "modelOption list" where
  "modelOptions =
    [(''onnx-community/emotion-ferplus-8'', cpu),
     (''onnx-community/emotion-ferplus-8'', webgpu),
     (''Xenova/distilbert-base-uncased-emotion'', cpu)]"

datatype image_format = JPEG | PNG

text \<open>
  What the browser and the model library answer during one call of a method:
  the clock and the random generator, \<open>pipeline(...)\<close> for a model option (\<open>None\<close>: it
  throws), whether \<open>canvas.getContext('2d')\<close> gives a context, whether \<open>ctx.drawImage\<close>
  returns (\<open>False\<close>: it throws), and \<open>canvas.toDataURL\<close> for a canvas of the given size
  (\<open>None\<close>: it throws).
\<close>

record browser = clock +
  pipeline :: "modelOption \<Rightarrow> classifier_fn option"
  getContext :: bool
  drawImage :: "source \<Rightarrow> nat \<Rightarrow> nat \<Rightarrow> bool"
  toDataURL :: "nat \<Rightarrow> nat \<Rightarrow> image_format \<Rightarrow> string option"

datatype error = AllModelsFailed

subsection \<open>\<open>initialize\<close>\<close>

text \<open>The loop \<open>for (const option of modelOptions)\<close>: the first option that loads is
  adopted and ends the loop; an option that throws is skipped.\<close>

fun try_models :: "(modelOption \<Rightarrow> classifier_fn option) \<Rightarrow> modelOption list \<Rightarrow> service \<Rightarrow> service" where
  "try_models load [] s = s"
| "try_models load (option # rest) s =
     (case load option of
        Some c \<Rightarrow> s\<lparr>classifier := Some c, isInitialized := True\<rparr>
      | None \<Rightarrow> try_models load rest s)"

text \<open>\<open>async initialize()\<close>: the result is the thrown error or a normal return, with the
  service as the call leaves it (the \<open>finally\<close> block clears \<open>isInitializing\<close>).\<close>

definition initialize :: "(modelOption \<Rightarrow> classifier_fn option) \<Rightarrow> service \<Rightarrow> (error + unit) \<times> service" where
  "initialize load s =
     (if isInitialized s \<or> isInitializing s then (Inr (), s)
      else
        let s1 = s\<lparr>isInitializing := True\<rparr>;
            s2 = try_models load modelOptions s1
        in if \<not> isInitialized s2
           then (Inl AllModelsFailed, s2\<lparr>isInitializing := False\<rparr>)
           else (Inr (), s2\<lparr>isInitializing := False\<rparr>))"

definition isReady :: "service \<Rightarrow> bool" where
  "isReady s = isInitialized s"

subsection \<open>\<open>detectEmotion\<close>\<close>

text \<open>The inner \<open>try\<close>: JPEG first, PNG when the JPEG encoder throws.\<close>

definition imageData :: "'a browser_scheme \<Rightarrow> nat \<Rightarrow> nat \<Rightarrow> string option" where
  "imageData b w h =
     (case toDataURL b w h JPEG of Some d \<Rightarrow> Some d | None \<Rightarrow> toDataURL b w h PNG)"

text \<open>
  The call \<open>this.classifier(imageData)\<close> of one detection, when the detection gets as far:
  \<open>None\<close> when the frame could not be extracted (no context, \<open>drawImage\<close> or both encoders
  threw). Calling the \<open>null\<close> classifier throws a TypeError.
\<close>

definition classifier_call :: "service \<Rightarrow> 'a browser_scheme \<Rightarrow> source \<Rightarrow> raw_results outcome option" where
  "classifier_call s b imageElement =
     (if \<not> getContext b then None
      else
        let width = canvas_width imageElement; height = canvas_height imageElement
        in if \<not> drawImage b imageElement width height then None
           else case imageData b width height of
                  None \<Rightarrow> None
                | Some d \<Rightarrow>
                    (case classifier s of None \<Rightarrow> Some Throws | Some c \<Rightarrow> Some (c d)))"

text \<open>What the body makes of the classifier's answer: everything that is not a non-empty
  array gives \<open>null\<close>, and so does a first element whose label cannot be lower-cased
  (the TypeError is caught).\<close>

fun read_results :: "int \<Rightarrow> raw_results outcome \<Rightarrow> EmotionPrediction option" where
  "read_results t Throws = None"
| "read_results t (Returns NotArray) = None"
| "read_results t (Returns (Array [])) = None"
| "read_results t (Returns (Array (NullItem # rest))) = None"
| "read_results t (Returns (Array (Item None score # rest))) = None"
| "read_results t (Returns (Array (Item (Some label) score # rest))) =
     Some \<lparr>emotion = mappedEmotion label, confidence = clampConfidence score, timestamp = t\<rparr>"

text \<open>The \<open>try { ... } catch (error) { return null }\<close> block of \<open>detectEmotion\<close>.\<close>

definition detect_try :: "service \<Rightarrow> 'a browser_scheme \<Rightarrow> source \<Rightarrow> EmotionPrediction option" where
  "detect_try s b imageElement =
     (case classifier_call s b imageElement of
        None \<Rightarrow> None
      | Some r \<Rightarrow> read_results (Date_now b) r)"

text \<open>\<open>if (!this.isInitialized) { await this.initialize(); }\<close>\<close>

definition ensure_initialized :: "service \<Rightarrow> 'a browser_scheme \<Rightarrow> (error + unit) \<times> service" where
  "ensure_initialized s b =
     (if \<not> isInitialized s then initialize (pipeline b) s else (Inr (), s))"

text \<open>\<open>async detectEmotion(imageElement)\<close>: the \<open>await this.initialize()\<close> stands before the
  \<open>try\<close>, so its error leaves the method.\<close>

definition detectEmotion :: "service \<Rightarrow> 'a browser_scheme \<Rightarrow> source \<Rightarrow> (error + EmotionPrediction option) \<times> service" where
  "detectEmotion s b imageElement =
     (case ensure_initialized s b of
        (Inl e, s') \<Rightarrow> (Inl e, s')
      | (Inr u, s') \<Rightarrow> (Inr (detect_try s' b imageElement), s'))"

subsection \<open>\<open>detectEmotionWithFallback\<close>\<close>

text \<open>The method returns the fallback's prediction at once; the primary path below the
  \<open>return\<close> is commented out. No field of the service is read or written.\<close>

definition detectEmotionWithFallback :: "service \<Rightarrow> 'a browser_scheme \<Rightarrow> source \<Rightarrow> (error + EmotionPrediction option) \<times> service" where
  "detectEmotionWithFallback s b imageElement =
     (Inr (Some (fallbackEmotionDetection b imageElement)), s)"

section \<open>The page component \<open>Index\<close>\<close>

record Index =
  currentEmotion :: "EmotionPrediction option"
  emotionHistory :: "EmotionPrediction list"
  videoElement :: "source option"

text \<open>The initial values of the three \<open>useState\<close> hooks.\<close>

definition Index_init :: Index where
  "Index_init = \<lparr>currentEmotion = None, emotionHistory = [], videoElement = None\<rparr>"

definition handleVideoReady :: "source \<Rightarrow> Index \<Rightarrow> Index" where
  "handleVideoReady video st = st\<lparr>videoElement := Some video\<rparr>"

text \<open>\<open>Array.prototype.slice(start)\<close> with one argument: a negative start counts from
  the end, and both are cut to the array.\<close>

definition slice :: "int \<Rightarrow> 'a list \<Rightarrow> 'a list" where
  "slice start xs =
     (let n = int (length xs);
          k = (if start < 0 then max (n + start) 0 else min start n)
      in drop (nat k) xs)"

text \<open>The callback \<open>detectEmotion\<close> of the component, run by the interval timer: one tick.
  A rejected promise is caught and logged; a \<open>null\<close> prediction changes nothing.\<close>

definition Index_detectEmotion :: "service \<Rightarrow> 'a browser_scheme \<Rightarrow> Index \<Rightarrow> Index" where
  "Index_detectEmotion svc b st =
     (case videoElement st of
        None \<Rightarrow> st
      | Some v \<Rightarrow>
          (case fst (detectEmotionWithFallback svc b v) of
             Inl e \<Rightarrow> st
           | Inr None \<Rightarrow> st
           | Inr (Some prediction) \<Rightarrow>
               st\<lparr>currentEmotion := Some prediction,
                  emotionHistory := slice (- 49) (emotionHistory st) @ [prediction]\<rparr>))"

text \<open>A run of ticks, one browser answer per tick.\<close>

fun ticks :: "service \<Rightarrow> 'a browser_scheme list \<Rightarrow> Index \<Rightarrow> Index" where
  "ticks svc [] st = st"
| "ticks svc (b # bs) st = ticks svc bs (Index_detectEmotion svc b st)"

section \<open>Sample inputs\<close>

text \<open>A classifier that answers every frame with one over-confident result, a browser in
  which every step of the frame extraction works and no model loads, and a service that
  has adopted the classifier.\<close>

definition sample_classifier :: classifier_fn where
  "sample_classifier d = Returns (Array [Item (Some ''Joy'') (Some (Fin 1.4))])"

definition sample_browser :: browser where
  "sample_browser =
     \<lparr>Date_now = 7500, Math_random = 1 / 2, pipeline = Map.empty, getContext = True,
      drawImage = (\<lambda>src w h. True), toDataURL = (\<lambda>w h f. Some ''data:image/jpeg'')\<rparr>"

definition ready_service :: service where
  "ready_service = \<lparr>classifier = Some sample_classifier, isInitialized = True, isInitializing = False\<rparr>"

text \<open>Two more classifiers: one whose call throws, one that reports a score of zero.\<close>

definition throwing_classifier :: classifier_fn where
  "throwing_classifier d = Throws"

definition zero_classifier :: classifier_fn where
  "zero_classifier d = Returns (Array [Item (Some ''Joy'') (Some (Fin 0))])"

text \<open>A page whose history is full: fifty copies of one earlier prediction, and a video
  attached.\<close>

definition old_prediction :: EmotionPrediction where
  "old_prediction = \<lparr>emotion = Str ''sad'', confidence = Fin 0.6, timestamp = 1000\<rparr>"

definition full_page :: Index where
  "full_page = \<lparr>currentEmotion = Some old_prediction,
                 emotionHistory = replicate 50 old_prediction,
                 videoElement = Some (HTMLVideoElement 640 480)\<rparr>"

section \<open>Predicates of the statements\<close>

text \<open>A number in the closed unit interval (so neither \<open>NaN\<close> nor infinite).\<close>

fun in_unit :: "jsnum \<Rightarrow> bool" where
  "in_unit (Fin x) = (0 \<le> x \<and> x \<le> 1)"
| "in_unit n = False"

text \<open>A result set that \<open>detectEmotion\<close> can read: a non-empty array whose first element
  carries a string label. An element with a label and no score still conforms; its
  confidence is the default.\<close>

fun conforming :: "raw_results \<Rightarrow> bool" where
  "conforming (Array (Item (Some label) score # rest)) = True"
| "conforming r = False"

section \<open>The fallback classifier: properties\<close>

text \<open>For a non-negative time the index computed with the real-valued remainder is the
  integer window number modulo seven.\<close>

lemma emotionIndex_nonneg:
  assumes "0 \<le> t"
  shows "emotionIndex t = (t div 3000) mod 7"
proof -
  let ?q = "real_of_int t / 3000"
  have q0: "0 \<le> ?q" using assms by simp
  have fq: "\<lfloor>?q\<rfloor> = t div 3000"
    using floor_divide_of_int_eq [of t 3000, where ?'a = real] by simp
  have tr: "js_trunc (?q / 7) = (t div 3000) div 7"
  proof -
    have "js_trunc (?q / 7) = \<lfloor>?q / 7\<rfloor>" using q0 by (simp add: js_trunc_def)
    also have "\<dots> = \<lfloor>?q\<rfloor> div 7"
      using floor_divide_real_eq_div [of 7 ?q] by simp
    finally show ?thesis using fq by simp
  qed
  have "emotionIndex t = \<lfloor>?q - 7 * of_int ((t div 3000) div 7)\<rfloor>"
    using tr by (simp add: emotionIndex_def js_rem_def emotions_def)
  also have "\<dots> = \<lfloor>?q - of_int (7 * ((t div 3000) div 7))\<rfloor>" by simp
  also have "\<dots> = \<lfloor>?q\<rfloor> - 7 * ((t div 3000) div 7)"
    by (rule floor_diff_of_int)
  also have "\<dots> = (t div 3000) mod 7"
    using fq by (simp add: minus_mult_div_eq_mod mult.commute)
  finally show ?thesis .
qed

lemma emotions_length: "length emotions = 7"
  by (simp add: emotions_def)

lemma emotions_distinct: "distinct emotions"
  by (simp add: emotions_def)

lemma fallback_emotion:
  assumes "0 \<le> Date_now c"
  shows "emotion (fallbackEmotionDetection c src) = Str (emotions ! nat ((Date_now c div 3000) mod 7))"
proof -
  have "0 \<le> (Date_now c div 3000) mod 7" "(Date_now c div 3000) mod 7 < 7" by simp_all
  then show ?thesis
    using assms
    by (simp add: fallbackEmotionDetection_def Let_def array_get_def emotionIndex_nonneg emotions_length)
qed

lemma fallback_confidence:
  "confidence (fallbackEmotionDetection c src) = Fin (0.4 + Math_random c * 0.3)"
  by (simp add: fallbackEmotionDetection_def Let_def)

lemma fallback_timestamp: "timestamp (fallbackEmotionDetection c src) = Date_now c"
  by (simp add: fallbackEmotionDetection_def Let_def)

text \<open>
  Claim C3. For every non-negative time \<open>Date.now()\<close> the fallback takes its label from the
  seven distinct labels of \<open>emotions\<close>, at position \<open>floor(now / 3000) mod 7\<close>. The label
  depends on the time only: two calls at the same time give the same label, whatever the
  source and the random number. The calls at time 0 and at time 3000 give different
  labels. With \<open>Math.random()\<close> in \<open>[0, 1)\<close> the confidence lies in \<open>[0.4, 0.7]\<close>.
\<close>

theorem fallback_cycle:
  assumes "0 \<le> Date_now c" and "0 \<le> Math_random c" and "Math_random c < 1"
  shows "length emotions = 7 \<and> distinct emotions
    \<and> emotion (fallbackEmotionDetection c src)
        = Str (emotions ! nat (\<lfloor>real_of_int (Date_now c) / 3000\<rfloor> mod 7))
    \<and> (Date_now c' = Date_now c \<longrightarrow>
         emotion (fallbackEmotionDetection c' src') = emotion (fallbackEmotionDetection c src))
    \<and> emotion (fallbackEmotionDetection (c\<lparr>Date_now := 0\<rparr>) src)
         \<noteq> emotion (fallbackEmotionDetection (c'\<lparr>Date_now := 3000\<rparr>) src')
    \<and> (\<exists>x. confidence (fallbackEmotionDetection c src) = Fin x \<and> 0.4 \<le> x \<and> x \<le> 0.7)"
proof -
  have fl: "\<lfloor>real_of_int (Date_now c) / 3000\<rfloor> = Date_now c div 3000"
    using floor_divide_of_int_eq [of "Date_now c" 3000, where ?'a = real] by simp
  have a: "emotion (fallbackEmotionDetection c src)
      = Str (emotions ! nat (\<lfloor>real_of_int (Date_now c) / 3000\<rfloor> mod 7))"
    using fallback_emotion [OF assms(1)] fl by simp
  have b: "Date_now c' = Date_now c \<longrightarrow>
         emotion (fallbackEmotionDetection c' src') = emotion (fallbackEmotionDetection c src)"
    by (simp add: fallbackEmotionDetection_def Let_def)
  have c0: "emotion (fallbackEmotionDetection (c\<lparr>Date_now := 0\<rparr>) src) = Str ''happy''"
    using fallback_emotion [of "c\<lparr>Date_now := 0\<rparr>" src] by (simp add: emotions_def)
  have c1: "emotion (fallbackEmotionDetection (c'\<lparr>Date_now := 3000\<rparr>) src') = Str ''neutral''"
    using fallback_emotion [of "c'\<lparr>Date_now := 3000\<rparr>" src'] by (simp add: emotions_def)
  have d: "\<exists>x. confidence (fallbackEmotionDetection c src) = Fin x \<and> 0.4 \<le> x \<and> x \<le> 0.7"
    using assms(2,3) by (simp add: fallback_confidence)
  show ?thesis using a b c0 c1 d by (simp add: emotions_length emotions_distinct)
qed

theorem fallback_cycle_witness:
  "0 \<le> Date_now \<lparr>Date_now = 7500, Math_random = 1/2\<rparr>
   \<and> 0 \<le> Math_random \<lparr>Date_now = 7500, Math_random = 1/2\<rparr>
   \<and> Math_random \<lparr>Date_now = 7500, Math_random = 1/2\<rparr> < 1
   \<and> emotion (fallbackEmotionDetection \<lparr>Date_now = 7500, Math_random = 1/2\<rparr> (HTMLVideoElement 640 480))
       = Str ''surprised''
   \<and> emotion (fallbackEmotionDetection \<lparr>Date_now = 7500, Math_random = 1/4\<rparr> (HTMLImageElement 10 10))
       = Str ''surprised''
   \<and> confidence (fallbackEmotionDetection \<lparr>Date_now = 7500, Math_random = 1/2\<rparr> (HTMLVideoElement 640 480))
       = Fin 0.55"
  using fallback_cycle [where c = "\<lparr>Date_now = 7500, Math_random = 1/2\<rparr>"
      and c' = "\<lparr>Date_now = 7500, Math_random = 1/4\<rparr>"
      and src = "HTMLVideoElement 640 480" and src' = "HTMLImageElement 10 10"]
  by (simp add: emotions_def fallback_confidence)

section \<open>The orchestrator: properties\<close>

text \<open>
  Claim C1. For every source, every state of the service (a loaded classifier of any
  behaviour, among them one that throws, or no classifier at all) and every answer of the
  browser, \<open>detectEmotionWithFallback\<close> returns normally with a prediction that is not
  \<open>null\<close>, and leaves the service as it was.
\<close>

theorem detectEmotionWithFallback_non_null:
  "\<exists>p. detectEmotionWithFallback s b imageElement = (Inr (Some p), s)"
  by (simp add: detectEmotionWithFallback_def)

text \<open>
  Claim C9. The result of \<open>detectEmotionWithFallback\<close> does not depend on the source:
  two calls that read the same time and the same random number return the same
  prediction, for any two sources (and any two states of the service).
\<close>

theorem detectEmotionWithFallback_ignores_source:
  assumes "Date_now b1 = Date_now b2" and "Math_random b1 = Math_random b2"
  shows "fst (detectEmotionWithFallback s1 b1 src1) = fst (detectEmotionWithFallback s2 b2 src2)"
  using assms by (simp add: detectEmotionWithFallback_def fallbackEmotionDetection_def Let_def)

theorem detectEmotionWithFallback_ignores_source_witness:
  "Date_now sample_browser = Date_now (sample_browser\<lparr>getContext := False\<rparr>)
   \<and> Math_random sample_browser = Math_random (sample_browser\<lparr>getContext := False\<rparr>)
   \<and> HTMLVideoElement 640 480 \<noteq> HTMLImageElement 10 10
   \<and> fst (detectEmotionWithFallback emotionDetectionService sample_browser (HTMLVideoElement 640 480))
       = fst (detectEmotionWithFallback ready_service (sample_browser\<lparr>getContext := False\<rparr>)
               (HTMLImageElement 10 10))"
  using detectEmotionWithFallback_ignores_source [where ?b1.0 = sample_browser
      and ?b2.0 = "sample_browser\<lparr>getContext := False\<rparr>"
      and ?s1.0 = emotionDetectionService and ?s2.0 = ready_service
      and ?src1.0 = "HTMLVideoElement 640 480" and ?src2.0 = "HTMLImageElement 10 10"]
  by simp

section \<open>The primary classifier: properties\<close>

subsection \<open>Confidence\<close>

lemma clampConfidence_in_unit: "in_unit (clampConfidence score)"
proof (cases score)
  case None
  then show ?thesis by (simp add: clampConfidence_def)
next
  case (Some n)
  then show ?thesis by (cases n) (simp_all add: clampConfidence_def)
qed

lemma clampConfidence_finite:
  "x \<noteq> 0 \<Longrightarrow> clampConfidence (Some (Fin x)) = Fin (max 0 (min 1 x))"
  by (simp add: clampConfidence_def)

lemma read_results_in_unit:
  "read_results t r = Some p \<Longrightarrow> in_unit (confidence p)"
  by (induction t r rule: read_results.induct) (auto simp: clampConfidence_in_unit)

lemma detect_try_in_unit: "detect_try s b src = Some p \<Longrightarrow> in_unit (confidence p)"
  by (auto simp: detect_try_def read_results_in_unit split: option.splits)

lemma detectEmotion_in_unit:
  "fst (detectEmotion s b src) = Inr (Some p) \<Longrightarrow> in_unit (confidence p)"
  by (auto simp: detectEmotion_def detect_try_in_unit split: prod.splits sum.splits)

lemma fallback_in_unit:
  "0 \<le> Math_random c \<Longrightarrow> Math_random c < 1 \<Longrightarrow>
   in_unit (confidence (fallbackEmotionDetection c src))"
  by (simp add: fallbackEmotionDetection_def Let_def)

lemma mapped_Joy: "mappedEmotion ''Joy'' = Str ''happy''"
  by code_simp

lemma mapped_xyz: "mappedEmotion ''xyz'' = Str ''neutral''"
  by code_simp

lemma sample_detect:
  "detectEmotion ready_service sample_browser (HTMLVideoElement 100 50)
    = (Inr (Some \<lparr>emotion = Str ''happy'', confidence = Fin 1, timestamp = 7500\<rparr>), ready_service)"
  by (simp add: detectEmotion_def ensure_initialized_def ready_service_def sample_browser_def
      detect_try_def classifier_call_def imageData_def sample_classifier_def mapped_Joy
      clampConfidence_def)

text \<open>
  Claim C2. Every prediction has its confidence in \<open>[0, 1]\<close>: the one \<open>detectEmotion\<close>
  returns, for every score the classifier reports (a number, \<open>NaN\<close>, an infinity, or none),
  and the fallback's, with \<open>Math.random()\<close> in \<open>[0, 1)\<close>. The raw result
  \<open>{label: "Joy", score: 1.4}\<close> gives \<open>happy\<close> with confidence 1, and
  \<open>{label: "xyz", score: -0.2}\<close> gives \<open>neutral\<close> with confidence 0. A non-zero finite score
  is clamped into \<open>[0, 1]\<close>, the infinities go to the nearer end, and \<open>NaN\<close> and an absent
  score give 0.5.
\<close>

theorem confidence_in_unit_interval:
  "(fst (detectEmotion s b src) = Inr (Some p) \<longrightarrow> in_unit (confidence p))
   \<and> (0 \<le> Math_random c \<and> Math_random c < 1 \<longrightarrow>
        in_unit (confidence (fallbackEmotionDetection c src')))
   \<and> read_results t (Returns (Array (Item (Some ''Joy'') (Some (Fin 1.4)) # rest)))
       = Some \<lparr>emotion = Str ''happy'', confidence = Fin 1.0, timestamp = t\<rparr>
   \<and> read_results t (Returns (Array (Item (Some ''xyz'') (Some (Fin (- 0.2))) # rest)))
       = Some \<lparr>emotion = Str ''neutral'', confidence = Fin 0.0, timestamp = t\<rparr>
   \<and> (x \<noteq> 0 \<longrightarrow> clampConfidence (Some (Fin x)) = Fin (max 0 (min 1 x)))
   \<and> clampConfidence (Some PosInf) = Fin 1
   \<and> clampConfidence (Some NegInf) = Fin 0
   \<and> clampConfidence (Some NaN) = Fin 0.5
   \<and> clampConfidence None = Fin 0.5"
proof -
  have a: "fst (detectEmotion s b src) = Inr (Some p) \<longrightarrow> in_unit (confidence p)"
    using detectEmotion_in_unit by blast
  have f: "0 \<le> Math_random c \<and> Math_random c < 1 \<longrightarrow>
      in_unit (confidence (fallbackEmotionDetection c src'))"
    using fallback_in_unit by blast
  have j: "read_results t (Returns (Array (Item (Some ''Joy'') (Some (Fin 1.4)) # rest)))
       = Some \<lparr>emotion = Str ''happy'', confidence = Fin 1.0, timestamp = t\<rparr>"
    by (simp add: mapped_Joy clampConfidence_def)
  have x: "read_results t (Returns (Array (Item (Some ''xyz'') (Some (Fin (- 0.2))) # rest)))
       = Some \<lparr>emotion = Str ''neutral'', confidence = Fin 0.0, timestamp = t\<rparr>"
    by (simp add: mapped_xyz clampConfidence_def)
  have n: "clampConfidence (Some NaN) = Fin 0.5" "clampConfidence None = Fin 0.5"
    "clampConfidence (Some PosInf) = Fin 1" "clampConfidence (Some NegInf) = Fin 0"
    by (simp_all add: clampConfidence_def)
  show ?thesis using a f j x n clampConfidence_finite by blast
qed

theorem confidence_in_unit_interval_witness:
  "fst (detectEmotion ready_service sample_browser (HTMLVideoElement 100 50))
     = Inr (Some \<lparr>emotion = Str ''happy'', confidence = Fin 1, timestamp = 7500\<rparr>)
   \<and> in_unit (confidence \<lparr>emotion = Str ''happy'', confidence = Fin 1, timestamp = 7500\<rparr>)
   \<and> 0 \<le> Math_random sample_browser \<and> Math_random sample_browser < 1
   \<and> in_unit (confidence (fallbackEmotionDetection sample_browser (HTMLVideoElement 100 50)))
   \<and> (3 / 10 :: real) \<noteq> 0
   \<and> clampConfidence (Some (Fin (3 / 10))) = Fin (3 / 10)"
  using confidence_in_unit_interval [where s = ready_service and b = sample_browser
      and src = "HTMLVideoElement 100 50"
      and p = "\<lparr>emotion = Str ''happy'', confidence = Fin 1, timestamp = 7500\<rparr>"
      and c = sample_browser and src' = "HTMLVideoElement 100 50" and x = "3 / 10"]
    sample_detect
  by (simp add: sample_browser_def)

text \<open>
  Claim C10. When the classifier's first result has a score of exactly zero,
  \<open>detectEmotion\<close> returns a prediction of confidence 0.5, not 0: the zero is falsy, so
  \<open>score || 0.5\<close> replaces it before the clamp, as it replaces an absent score.
\<close>

theorem zero_score_defaults:
  assumes "ensure_initialized s b = (Inr (), s')"
    and "classifier_call s' b src
           = Some (Returns (Array (Item (Some label) (Some (Fin 0)) # rest)))"
  shows "\<exists>p. detectEmotion s b src = (Inr (Some p), s')
           \<and> confidence p = Fin 0.5 \<and> confidence p \<noteq> Fin 0
           \<and> clampConfidence (Some (Fin 0)) = clampConfidence None"
  using assms by (simp add: detectEmotion_def detect_try_def clampConfidence_def)

theorem zero_score_defaults_witness:
  "ensure_initialized (ready_service\<lparr>classifier := Some zero_classifier\<rparr>) sample_browser
     = (Inr (), ready_service\<lparr>classifier := Some zero_classifier\<rparr>)
   \<and> classifier_call (ready_service\<lparr>classifier := Some zero_classifier\<rparr>) sample_browser
        (HTMLVideoElement 100 50)
     = Some (Returns (Array (Item (Some ''Joy'') (Some (Fin 0)) # [])))
   \<and> detectEmotion (ready_service\<lparr>classifier := Some zero_classifier\<rparr>) sample_browser
        (HTMLVideoElement 100 50)
     = (Inr (Some \<lparr>emotion = Str ''happy'', confidence = Fin 0.5, timestamp = 7500\<rparr>),
        ready_service\<lparr>classifier := Some zero_classifier\<rparr>)"
proof -
  let ?s = "ready_service\<lparr>classifier := Some zero_classifier\<rparr>"
  have e: "ensure_initialized ?s sample_browser = (Inr (), ?s)"
    by (simp add: ensure_initialized_def ready_service_def)
  have c: "classifier_call ?s sample_browser (HTMLVideoElement 100 50)
     = Some (Returns (Array (Item (Some ''Joy'') (Some (Fin 0)) # [])))"
    by (simp add: classifier_call_def sample_browser_def imageData_def zero_classifier_def)
  have "detectEmotion ?s sample_browser (HTMLVideoElement 100 50)
     = (Inr (Some \<lparr>emotion = Str ''happy'', confidence = Fin 0.5, timestamp = 7500\<rparr>), ?s)"
    using e c
    by (simp add: detectEmotion_def detect_try_def mapped_Joy clampConfidence_def sample_browser_def)
  then show ?thesis using e c zero_score_defaults [OF e c] by simp
qed

subsection \<open>Failures of the classifier\<close>

lemma read_results_nonconforming: "\<not> conforming r \<Longrightarrow> read_results t (Returns r) = None"
  by (induction t "Returns r" rule: read_results.induct) auto

text \<open>The only error that leaves \<open>detectEmotion\<close> is the one of the initialization that
  precedes the \<open>try\<close> block.\<close>

lemma detectEmotion_throws_only_from_initialize:
  "fst (detectEmotion s b src) = Inl e \<Longrightarrow> fst (ensure_initialized s b) = Inl e"
  by (auto simp: detectEmotion_def split: prod.splits sum.splits)

text \<open>
  Claim C7. When the call of the classifier made by \<open>detectEmotion\<close> throws (the \<open>null\<close>
  classifier included), or returns something that is not an array, an empty array, or an
  array whose first element has no string label, \<open>detectEmotion\<close> returns \<open>null\<close> and no
  error leaves it.
\<close>

theorem detectEmotion_null_on_failure:
  assumes "ensure_initialized s b = (Inr (), s')"
    and "classifier_call s' b src = Some out"
    and "out = Throws \<or> (\<exists>r. out = Returns r \<and> \<not> conforming r)"
  shows "detectEmotion s b src = (Inr None, s')"
  using assms by (auto simp: detectEmotion_def detect_try_def read_results_nonconforming)

theorem detectEmotion_null_on_failure_witness:
  "ensure_initialized (ready_service\<lparr>classifier := Some throwing_classifier\<rparr>) sample_browser
     = (Inr (), ready_service\<lparr>classifier := Some throwing_classifier\<rparr>)
   \<and> classifier_call (ready_service\<lparr>classifier := Some throwing_classifier\<rparr>) sample_browser
        (HTMLVideoElement 640 480) = Some Throws
   \<and> detectEmotion (ready_service\<lparr>classifier := Some throwing_classifier\<rparr>) sample_browser
        (HTMLVideoElement 640 480)
     = (Inr None, ready_service\<lparr>classifier := Some throwing_classifier\<rparr>)"
proof -
  let ?s = "ready_service\<lparr>classifier := Some throwing_classifier\<rparr>"
  have e: "ensure_initialized ?s sample_browser = (Inr (), ?s)"
    by (simp add: ensure_initialized_def ready_service_def)
  have c: "classifier_call ?s sample_browser (HTMLVideoElement 640 480) = Some Throws"
    by (simp add: classifier_call_def sample_browser_def imageData_def throwing_classifier_def)
  show ?thesis using e c detectEmotion_null_on_failure [OF e c] by simp
qed

subsection \<open>Frame extraction\<close>

text \<open>
  Claim C6, as the specification states it, fails for a source whose intrinsic dimensions
  are zero (a video element before its metadata has loaded): the canvas is then 640 by
  480, not \<open>max(0, 224)\<close> on each axis.
\<close>

theorem canvas_size_zero_counterexample:
  "canvas_width (HTMLVideoElement 0 0) = 640
   \<and> canvas_width (HTMLVideoElement 0 0) \<noteq> max 0 224
   \<and> canvas_height (HTMLVideoElement 0 0) = 480
   \<and> canvas_height (HTMLVideoElement 0 0) \<noteq> max 0 224"
  by (simp add: dim_or_def)

text \<open>
  Claim C6, amended. For a source of intrinsic width \<open>w\<close> and height \<open>h\<close> the canvas is
  \<open>max(w', 224)\<close> by \<open>max(h', 224)\<close>, each axis on its own, where \<open>w'\<close> is \<open>w\<close>, or 640 when
  \<open>w\<close> is zero, and \<open>h'\<close> is \<open>h\<close>, or 480 when \<open>h\<close> is zero. So for positive dimensions it is
  \<open>max(w, 224)\<close> by \<open>max(h, 224)\<close>, and a video of 100 by 50 gives 224 by 224.
\<close>

theorem canvas_size_amended:
  assumes "imageElement = HTMLVideoElement w h \<or> imageElement = HTMLImageElement w h
           \<or> imageElement = HTMLCanvasElement w h"
  shows "canvas_width imageElement = max (if w = 0 then 640 else w) 224
       \<and> canvas_height imageElement = max (if h = 0 then 480 else h) 224
       \<and> (0 < w \<longrightarrow> canvas_width imageElement = max w 224)
       \<and> (0 < h \<longrightarrow> canvas_height imageElement = max h 224)
       \<and> canvas_width (HTMLVideoElement 100 50) = 224
       \<and> canvas_height (HTMLVideoElement 100 50) = 224"
  using assms by (auto simp: dim_or_def)

theorem canvas_size_amended_witness:
  "canvas_width (HTMLImageElement 300 700) = 300 \<and> canvas_height (HTMLImageElement 300 700) = 700
   \<and> (0::nat) < 300 \<and> canvas_width (HTMLImageElement 300 700) = max 300 224
   \<and> (0::nat) < 700 \<and> canvas_height (HTMLImageElement 300 700) = max 700 224"
  using canvas_size_amended [of "HTMLImageElement 300 700" 300 700] by simp

subsection \<open>Label normalization\<close>

lemma lower_char_not_upper:
  "\<not> (65 \<le> (of_char (lower_char c) :: nat) \<and> (of_char (lower_char c) :: nat) \<le> 90)"
proof (cases "65 \<le> (of_char c :: nat) \<and> (of_char c :: nat) \<le> 90")
  case True
  then have "(of_char (lower_char c) :: nat) = (of_char c + 32) mod 256"
    by (simp add: lower_char_def)
  also have "\<dots> = of_char c + 32" using True by simp
  finally show ?thesis using True by simp
next
  case False
  then show ?thesis by (auto simp: lower_char_def)
qed

lemma toLowerCase_no_upper:
  "c \<in> set (toLowerCase l) \<Longrightarrow> \<not> (65 \<le> (of_char c :: nat) \<and> (of_char c :: nat) \<le> 90)"
  using lower_char_not_upper by (auto simp: toLowerCase_def)

lemma emotionMap_values:
  assumes "map_of emotionMap k = Some v"
  shows "v \<in> set emotions"
proof -
  have "(k, v) \<in> set emotionMap" using assms by (rule map_of_SomeD)
  then have "v \<in> snd ` set emotionMap" by force
  also have "snd ` set emotionMap \<subseteq> set emotions"
    by (simp add: emotionMap_def emotions_def)
  finally show ?thesis .
qed

text \<open>The members of \<open>Object.prototype\<close> that a lower-cased label can name.\<close>

lemma inherited_lower_keys:
  assumes "k \<in> set Object_prototype"
    and "\<forall>c \<in> set k. \<not> (65 \<le> (of_char c :: nat) \<and> (of_char c :: nat) \<le> 90)"
  shows "k = ''constructor'' \<or> k = ''__proto__''"
proof (rule ccontr)
  assume n: "\<not> (k = ''constructor'' \<or> k = ''__proto__'')"
  have "k \<in> set Object_prototype" by (rule assms(1))
  then have "k \<in> {''hasOwnProperty'', ''isPrototypeOf'', ''propertyIsEnumerable'',
     ''toLocaleString'', ''toString'', ''valueOf'',
     ''__defineGetter__'', ''__defineSetter__'', ''__lookupGetter__'', ''__lookupSetter__''}"
    using n unfolding Object_prototype_def by simp
  then have "CHR ''O'' \<in> set k \<or> CHR ''P'' \<in> set k \<or> CHR ''L'' \<in> set k
     \<or> CHR ''S'' \<in> set k \<or> CHR ''G'' \<in> set k \<or> CHR ''I'' \<in> set k"
    by (elim insertE emptyE) simp_all
  moreover have "(of_char (CHR ''O'') :: nat) = 79" "(of_char (CHR ''P'') :: nat) = 80"
    "(of_char (CHR ''L'') :: nat) = 76" "(of_char (CHR ''S'') :: nat) = 83"
    "(of_char (CHR ''G'') :: nat) = 71" "(of_char (CHR ''I'') :: nat) = 73" by simp_all
  ultimately show False
    using assms(2) by fastforce
qed

text \<open>Every label that does not lower-case to \<open>constructor\<close> or \<open>__proto__\<close> is mapped to
  one of the seven emotions.\<close>

lemma mappedEmotion_canonical:
  assumes "toLowerCase label \<noteq> ''constructor''" and "toLowerCase label \<noteq> ''__proto__''"
  shows "\<exists>e \<in> set emotions. mappedEmotion label = Str e"
proof (cases "map_of emotionMap (toLowerCase label)")
  case (Some v)
  then have "v \<in> set emotions" by (rule emotionMap_values)
  moreover have "v \<noteq> []" using \<open>v \<in> set emotions\<close> by (auto simp: emotions_def)
  ultimately show ?thesis
    using Some by (auto simp: mappedEmotion_def emotionMap_get_def js_or_def)
next
  case None
  have "toLowerCase label \<notin> set Object_prototype"
    using inherited_lower_keys [of "toLowerCase label"] toLowerCase_no_upper assms by blast
  then show ?thesis using None
    by (simp add: mappedEmotion_def emotionMap_get_def js_or_def emotions_def)
qed

text \<open>
  Claim C4 at the label \<open>constructor\<close>: the read \<open>emotionMap['constructor']\<close> finds the
  function that every plain object inherits, which is truthy, so \<open>|| 'neutral'\<close> does not
  apply. The mapped emotion is that function: none of the seven emotions, and not
  \<open>neutral\<close>, although the label is unknown to the table. \<open>detectEmotion\<close> puts it into the
  prediction it returns.
\<close>

theorem mappedEmotion_constructor:
  "mappedEmotion ''constructor'' = Inherited ''constructor''
   \<and> mappedEmotion ''constructor'' \<notin> set (map Str emotions)
   \<and> mappedEmotion ''constructor'' \<noteq> Str ''neutral''
   \<and> map_of emotionMap ''constructor'' = None
   \<and> read_results 7500 (Returns (Array [Item (Some ''constructor'') (Some (Fin 0.9))]))
       = Some \<lparr>emotion = Inherited ''constructor'', confidence = Fin 0.9, timestamp = 7500\<rparr>"
proof -
  have m: "mappedEmotion ''constructor'' = Inherited ''constructor''" by code_simp
  show ?thesis by (simp add: m emotions_def clampConfidence_def emotionMap_def)
qed

section \<open>The model loader: properties\<close>

lemma try_models_all_fail:
  "\<forall>opt \<in> set opts. load opt = None \<Longrightarrow> try_models load opts s = s"
  by (induction opts) auto

lemma try_models_isInitialized:
  "isInitialized (try_models load opts s)
     = (isInitialized s \<or> (\<exists>opt \<in> set opts. load opt \<noteq> None))"
  by (induction opts) (auto split: option.splits)

lemma initialize_isReady:
  "isReady (snd (initialize load s))
     = (isReady s \<or> (\<not> isInitializing s \<and> (\<exists>opt \<in> set modelOptions. load opt \<noteq> None)))"
  by (auto simp: initialize_def isReady_def Let_def try_models_isInitialized)

text \<open>
  Claim C8, as the specification states it, fails: after an attempt in which no candidate
  loads the service is not in a lasting failed state. A second call of \<open>initialize\<close> tries
  the candidates again, and when one loads then, \<open>isReady()\<close> is true.
\<close>

theorem initialize_retry_counterexample:
  "fst (initialize Map.empty emotionDetectionService) = Inl AllModelsFailed
   \<and> \<not> isReady (snd (initialize Map.empty emotionDetectionService))
   \<and> isReady (snd (initialize [(''onnx-community/emotion-ferplus-8'', cpu) \<mapsto> sample_classifier]
                 (snd (initialize Map.empty emotionDetectionService))))"
  by (simp add: initialize_def Let_def modelOptions_def emotionDetectionService_def isReady_def)

text \<open>
  Claim C8, amended. If every candidate of the list fails to load, \<open>initialize\<close> throws the
  error that all models failed and leaves the service as it was before the attempt, neither
  initialized nor initializing: \<open>isReady()\<close> is false, \<open>detectEmotionWithFallback\<close> returns a
  prediction that is not \<open>null\<close> and does not change the service, and \<open>isReady()\<close> becomes
  true exactly when a later \<open>initialize\<close> finds a candidate that loads.
\<close>

theorem initialize_all_fail:
  assumes "\<not> isInitialized s" and "\<not> isInitializing s"
    and "\<forall>opt \<in> set modelOptions. load opt = None"
  shows "initialize load s = (Inl AllModelsFailed, s)
       \<and> \<not> isReady s
       \<and> (\<exists>p. detectEmotionWithFallback s b src = (Inr (Some p), s))
       \<and> (isReady (snd (initialize load' s)) = (\<exists>opt \<in> set modelOptions. load' opt \<noteq> None))"
proof -
  have "try_models load modelOptions (s\<lparr>isInitializing := True\<rparr>) = s\<lparr>isInitializing := True\<rparr>"
    using assms(3) by (rule try_models_all_fail)
  then have "initialize load s = (Inl AllModelsFailed, s)"
    using assms(1,2) by (simp add: initialize_def Let_def)
  moreover have "\<not> isReady s" using assms(1) by (simp add: isReady_def)
  moreover have "\<exists>p. detectEmotionWithFallback s b src = (Inr (Some p), s)"
    by (simp add: detectEmotionWithFallback_def)
  moreover have "isReady (snd (initialize load' s)) = (\<exists>opt \<in> set modelOptions. load' opt \<noteq> None)"
    using assms(1,2) initialize_isReady [of load' s] by (simp add: isReady_def)
  ultimately show ?thesis by simp
qed

theorem initialize_all_fail_witness:
  "\<not> isInitialized emotionDetectionService \<and> \<not> isInitializing emotionDetectionService
   \<and> map Map.empty modelOptions = [None, None, None :: classifier_fn option]
   \<and> initialize Map.empty emotionDetectionService = (Inl AllModelsFailed, emotionDetectionService)
   \<and> \<not> isReady emotionDetectionService
   \<and> isReady (snd (initialize [(''onnx-community/emotion-ferplus-8'', cpu) \<mapsto> sample_classifier]
                 emotionDetectionService))"
proof -
  have i: "\<not> isInitialized emotionDetectionService" "\<not> isInitializing emotionDetectionService"
    by (simp_all add: emotionDetectionService_def)
  have f: "\<forall>opt \<in> set modelOptions. Map.empty opt = (None :: classifier_fn option)"
    by simp
  have m: "map Map.empty modelOptions = [None, None, None :: classifier_fn option]"
    by (simp add: modelOptions_def)
  show ?thesis
    using initialize_all_fail [OF i f, where
        load' = "[(''onnx-community/emotion-ferplus-8'', cpu) \<mapsto> sample_classifier]"
        and b = sample_browser and src = "HTMLVideoElement 100 50"] i m
    by (simp add: modelOptions_def)
qed

section \<open>The emotion history: properties\<close>

lemma slice_last_49: "slice (- 49) xs = drop (length xs - 49) xs"
  by (simp add: slice_def Let_def max_def nat_diff_distrib')

lemma drop_last_50_step:
  "drop (length (drop (length xs - 49) xs @ p # ys) - 50) (drop (length xs - 49) xs @ p # ys)
     = drop (length (xs @ p # ys) - 50) (xs @ p # ys)"
  by (cases "length xs \<le> 49") (auto simp: drop_append add.commute)

lemma Index_detectEmotion_attached:
  "videoElement st = Some v \<Longrightarrow>
   Index_detectEmotion svc b st
     = st\<lparr>currentEmotion := Some (fallbackEmotionDetection b v),
          emotionHistory := drop (length (emotionHistory st) - 49) (emotionHistory st)
                              @ [fallbackEmotionDetection b v]\<rparr>"
  by (simp add: Index_detectEmotion_def detectEmotionWithFallback_def slice_last_49)

lemma ticks_history:
  assumes "videoElement st = Some v" and "bs \<noteq> []"
  shows "emotionHistory (ticks svc bs st)
     = drop (length (emotionHistory st @ map (\<lambda>b. fallbackEmotionDetection b v) bs) - 50)
         (emotionHistory st @ map (\<lambda>b. fallbackEmotionDetection b v) bs)"
  using assms
proof (induction bs arbitrary: st)
  case Nil
  then show ?case by simp
next
  case (Cons b bs)
  let ?st1 = "Index_detectEmotion svc b st"
  let ?p = "fallbackEmotionDetection b v"
  have v1: "videoElement ?st1 = Some v"
    using Cons.prems(1) by (simp add: Index_detectEmotion_attached)
  have h1: "emotionHistory ?st1 = drop (length (emotionHistory st) - 49) (emotionHistory st) @ [?p]"
    using Cons.prems(1) by (simp add: Index_detectEmotion_attached)
  show ?case
  proof (cases "bs = []")
    case True
    then show ?thesis using h1 by simp
  next
    case False
    from Cons.IH [OF v1 False] h1 show ?thesis
      using drop_last_50_step [of "emotionHistory st" ?p "map (\<lambda>b. fallbackEmotionDetection b v) bs"]
      by simp
  qed
qed

lemma ticks_current:
  assumes "videoElement st = Some v" and "bs \<noteq> []"
  shows "currentEmotion (ticks svc bs st) = Some (fallbackEmotionDetection (last bs) v)"
  using assms
proof (induction bs arbitrary: st)
  case Nil
  then show ?case by simp
next
  case (Cons b bs)
  have v1: "videoElement (Index_detectEmotion svc b st) = Some v"
    using Cons.prems(1) by (simp add: Index_detectEmotion_attached)
  show ?case
  proof (cases "bs = []")
    case True
    then show ?thesis using Cons.prems(1) by (simp add: Index_detectEmotion_attached)
  next
    case False
    then show ?thesis using Cons.IH [OF v1 False] by simp
  qed
qed

text \<open>From the first rendering of the page, with a video attached: the history is the
  last fifty predictions of the ticks.\<close>

lemma history_from_start:
  "emotionHistory (ticks svc bs (handleVideoReady v Index_init))
     = drop (length bs - 50) (map (\<lambda>b. fallbackEmotionDetection b v) bs)"
proof (cases "bs = []")
  case True
  then show ?thesis by (simp add: handleVideoReady_def Index_init_def)
next
  case False
  have "videoElement (handleVideoReady v Index_init) = Some v"
    by (simp add: handleVideoReady_def)
  from ticks_history [OF this False, of svc] show ?thesis
    by (simp add: handleVideoReady_def Index_init_def)
qed

text \<open>
  Claim C5. With a video attached and a history of at most fifty entries, after any run
  of ticks the history has at most fifty entries: it is the last fifty of the old history
  followed by the predictions of the ticks, in their order. One tick makes its prediction
  the current emotion and appends it after the last 49 entries, which drops the oldest
  entry of a full history. After a non-empty run the current emotion is the prediction
  of the last tick, which is also the last entry of the history.
\<close>

theorem history_bounded:
  assumes "videoElement st = Some v" and "length (emotionHistory st) \<le> 50"
  shows "length (emotionHistory (ticks svc bs st)) \<le> 50
    \<and> emotionHistory (ticks svc bs st)
        = drop (length (emotionHistory st @ map (\<lambda>b. fallbackEmotionDetection b v) bs) - 50)
            (emotionHistory st @ map (\<lambda>b. fallbackEmotionDetection b v) bs)
    \<and> (bs \<noteq> [] \<longrightarrow>
         currentEmotion (ticks svc bs st) = Some (fallbackEmotionDetection (last bs) v)
         \<and> last (emotionHistory (ticks svc bs st)) = fallbackEmotionDetection (last bs) v)
    \<and> emotionHistory (Index_detectEmotion svc b st)
        = drop (length (emotionHistory st) - 49) (emotionHistory st) @ [fallbackEmotionDetection b v]
    \<and> currentEmotion (Index_detectEmotion svc b st) = Some (fallbackEmotionDetection b v)"
proof -
  let ?ps = "map (\<lambda>b. fallbackEmotionDetection b v) bs"
  have h: "emotionHistory (ticks svc bs st)
        = drop (length (emotionHistory st @ ?ps) - 50) (emotionHistory st @ ?ps)"
  proof (cases "bs = []")
    case True
    then show ?thesis using assms(2) by simp
  next
    case False
    then show ?thesis using ticks_history [OF assms(1)] by simp
  qed
  have l: "length (emotionHistory (ticks svc bs st)) \<le> 50"
    unfolding h by simp
  have c: "bs \<noteq> [] \<longrightarrow>
         currentEmotion (ticks svc bs st) = Some (fallbackEmotionDetection (last bs) v)
         \<and> last (emotionHistory (ticks svc bs st)) = fallbackEmotionDetection (last bs) v"
  proof
    assume ne: "bs \<noteq> []"
    have "length (emotionHistory st @ ?ps) - 50 < length (emotionHistory st @ ?ps)"
      using ne by (cases bs) auto
    then have "last (emotionHistory (ticks svc bs st)) = last (emotionHistory st @ ?ps)"
      unfolding h by (rule last_drop)
    also have "\<dots> = fallbackEmotionDetection (last bs) v"
      using ne by (simp add: last_map)
    finally show "currentEmotion (ticks svc bs st) = Some (fallbackEmotionDetection (last bs) v)
         \<and> last (emotionHistory (ticks svc bs st)) = fallbackEmotionDetection (last bs) v"
      using ticks_current [OF assms(1) ne] by simp
  qed
  show ?thesis using h l c assms(1) by (simp add: Index_detectEmotion_attached)
qed

theorem history_bounded_witness:
  "videoElement full_page = Some (HTMLVideoElement 640 480)
   \<and> length (emotionHistory full_page) \<le> 50
   \<and> [sample_browser] \<noteq> []
   \<and> length (emotionHistory (ticks ready_service [sample_browser] full_page)) \<le> 50
   \<and> emotionHistory (ticks ready_service [sample_browser] full_page)
       = replicate 49 old_prediction
         @ [\<lparr>emotion = Str ''surprised'', confidence = Fin 0.55, timestamp = 7500\<rparr>]
   \<and> currentEmotion (ticks ready_service [sample_browser] full_page)
       = Some \<lparr>emotion = Str ''surprised'', confidence = Fin 0.55, timestamp = 7500\<rparr>"
proof -
  have v: "videoElement full_page = Some (HTMLVideoElement 640 480)"
    by (simp add: full_page_def)
  have n: "length (emotionHistory full_page) \<le> 50"
    by (simp add: full_page_def)
  have p: "fallbackEmotionDetection sample_browser (HTMLVideoElement 640 480)
      = \<lparr>emotion = Str ''surprised'', confidence = Fin 0.55, timestamp = 7500\<rparr>"
    using fallback_emotion [of sample_browser "HTMLVideoElement 640 480"]
      fallback_confidence [of sample_browser "HTMLVideoElement 640 480"]
      fallback_timestamp [of sample_browser "HTMLVideoElement 640 480"]
    by (simp add: sample_browser_def emotions_def)
  show ?thesis
    using history_bounded [OF v n, of ready_service "[sample_browser]" sample_browser] v n p
    by (simp add: full_page_def)
qed

end
